theory Spec2Isabelle
  imports Main
begin

section \<open>The activity registry of the Mergington High School API\<close>

text \<open>
  The program is one Python module, \<^verbatim>\<open>src_app.py\<close>: a dictionary \<^verbatim>\<open>activities\<close> from
  activity names to activity records, and three endpoints over it (a fourth route only
  redirects to the static front page). The dictionary is the only state. It is modelled
  as a map that every operation takes and returns; an
  \<^verbatim>\<open>HTTPException\<close> raised by an endpoint is the \<open>Inl\<close> branch of its result.

  Every record of the dictionary is a Python dict with the same four keys, each with its
  own participants list, and no endpoint adds or removes a record. A record is therefore
  a value of a four-field record type, and the test \<^verbatim>\<open>if not activity\<close>, which Python
  takes for \<^verbatim>\<open>None\<close> and for an empty dict, is the test for an absent name.

  The lock \<^verbatim>\<open>_db_lock\<close> makes the body of a signup one step on the dictionary; the model
  is the sequential behaviour of one request at a time.
\<close>

subsection \<open>Strings\<close>

text \<open>
  A Python \<^verbatim>\<open>str\<close> is modelled as a \<open>string\<close>; the characters of an address outside
  ASCII are the bytes of its UTF-8 encoding, on which equality, membership in a list,
  concatenation and \<^verbatim>\<open>endswith\<close> are what they are on the Python string.
  \<^verbatim>\<open>s.endswith(t)\<close> holds when the last \<^verbatim>\<open>len(t)\<close> characters of \<^verbatim>\<open>s\<close> are \<^verbatim>\<open>t\<close>.
\<close>

definition endswith :: "string \<Rightarrow> string \<Rightarrow> bool" where
  "endswith s t = (length t \<le> length s \<and> drop (length s - length t) s = t)"

text \<open>
  \<^verbatim>\<open>str.lower\<close> is a built-in of the language: it lower-cases by the case tables of
  Unicode, which are no part of the program. The operations below therefore take the
  lower-casing function as their first argument, called \<open>lower\<close> as in the source, and
  the general theorems hold for every function of which \<open>str_lower\<close> is true: lower-casing
  twice is lower-casing once, and a string of ASCII characters is lower-cased by mapping
  \<^verbatim>\<open>A\<close>..\<^verbatim>\<open>Z\<close> to \<^verbatim>\<open>a\<close>..\<^verbatim>\<open>z\<close> and leaving every other character alone. Both are
  true of \<^verbatim>\<open>str.lower\<close>. Theorems that need nothing of the function assume nothing.

  \<open>ascii_lower\<close> does to every string what \<^verbatim>\<open>str.lower\<close> does to an ASCII one; it is
  the function at which examples are evaluated, always on ASCII addresses.
  \<open>isascii\<close> is \<^verbatim>\<open>str.isascii\<close>.
\<close>

definition isascii :: "string \<Rightarrow> bool" where
  "isascii s = list_all (\<lambda>c. (of_char c :: nat) < 128) s"

definition ascii_lower_char :: "char \<Rightarrow> char" where
  "ascii_lower_char c =
     (let n = (of_char c :: nat)
      in if 65 \<le> n \<and> n \<le> 90 then char_of (n + 32) else c)"

definition ascii_lower :: "string \<Rightarrow> string" where
  "ascii_lower s = map ascii_lower_char s"

definition str_lower :: "(string \<Rightarrow> string) \<Rightarrow> bool" where
  "str_lower lower =
     ((\<forall>s. lower (lower s) = lower s) \<and> (\<forall>s. isascii s \<longrightarrow> lower s = ascii_lower s))"

subsection \<open>Records, the registry and its seed\<close>

record activity =
  description :: string
  schedule :: string
  max_participants :: int
  participants :: "string list"

type_synonym registry = "string \<rightharpoonup> activity"

definition activities :: registry where
  "activities = map_of
     [(''Chess Club'',
       \<lparr>description = ''Learn strategies and compete in chess tournaments'',
        schedule = ''Fridays, 3:30 PM - 5:00 PM'',
        max_participants = 12,
        participants = [''michael@mergington.edu'', ''daniel@mergington.edu'']\<rparr>),
      (''Programming Class'',
       \<lparr>description = ''Learn programming fundamentals and build software projects'',
        schedule = ''Tuesdays and Thursdays, 3:30 PM - 4:30 PM'',
        max_participants = 20,
        participants = [''emma@mergington.edu'', ''sophia@mergington.edu'']\<rparr>),
      (''Gym Class'',
       \<lparr>description = ''Physical education and sports activities'',
        schedule = ''Mondays, Wednesdays, Fridays, 2:00 PM - 3:00 PM'',
        max_participants = 30,
        participants = [''john@mergington.edu'', ''olivia@mergington.edu'']\<rparr>),
      (''Basketball Team'',
       \<lparr>description = ''Join the competitive basketball team and compete in regional tournaments'',
        schedule = ''Mondays and Thursdays, 4:00 PM - 5:30 PM'',
        max_participants = 15,
        participants = [''james@mergington.edu'']\<rparr>),
      (''Tennis Club'',
       \<lparr>description = ''Learn tennis skills and participate in friendly matches'',
        schedule = ''Wednesdays and Saturdays, 3:00 PM - 4:30 PM'',
        max_participants = 12,
        participants = [''lucas@mergington.edu'', ''sophia@mergington.edu'']\<rparr>),
      (''Drama Club'',
       \<lparr>description = ''Perform in school plays and theatrical productions'',
        schedule = ''Tuesdays and Fridays, 4:00 PM - 5:30 PM'',
        max_participants = 25,
        participants = [''isabella@mergington.edu'', ''alexander@mergington.edu'']\<rparr>),
      (''Art Studio'',
       \<lparr>description = ''Explore various art techniques including painting, drawing, and sculpture'',
        schedule = ''Mondays and Wednesdays, 3:30 PM - 5:00 PM'',
        max_participants = 18,
        participants = [''ava@mergington.edu'']\<rparr>),
      (''Robotics Club'',
       \<lparr>description = ''Build and program robots to compete in robotics competitions'',
        schedule = ''Thursdays and Saturdays, 3:00 PM - 5:00 PM'',
        max_participants = 16,
        participants = [''noah@mergington.edu'', ''liam@mergington.edu'']\<rparr>),
      (''Science Club'',
       \<lparr>description = ''Conduct experiments and explore scientific concepts through hands-on activities'',
        schedule = ''Wednesdays, 3:30 PM - 5:00 PM'',
        max_participants = 20,
        participants = [''charlotte@mergington.edu'']\<rparr>)]"

subsection \<open>Errors and status codes\<close>

datatype http_exception = HTTPException (status_code: nat) (detail: string)

definition HTTP_200_OK :: nat where "HTTP_200_OK = 200"
definition HTTP_201_CREATED :: nat where "HTTP_201_CREATED = 201"
definition HTTP_400_BAD_REQUEST :: nat where "HTTP_400_BAD_REQUEST = 400"
definition HTTP_403_FORBIDDEN :: nat where "HTTP_403_FORBIDDEN = 403"
definition HTTP_404_NOT_FOUND :: nat where "HTTP_404_NOT_FOUND = 404"
definition HTTP_409_CONFLICT :: nat where "HTTP_409_CONFLICT = 409"

subsection \<open>The endpoints\<close>

definition get_activities :: "registry \<Rightarrow> registry \<times> registry" where
  "get_activities reg = (reg, reg)"

definition get_activity ::
  "registry \<Rightarrow> string \<Rightarrow> (http_exception + activity) \<times> registry" where
  "get_activity reg activity_name =
     (case reg activity_name of
        None \<Rightarrow> (Inl (HTTPException HTTP_404_NOT_FOUND ''Activity not found''), reg)
      | Some act \<Rightarrow> (Inr act, reg))"

definition validate_student :: "(string \<Rightarrow> string) \<Rightarrow> string \<Rightarrow> bool" where
  "validate_student lower email = endswith (lower email) ''@mergington.edu''"

definition check_already_signed_up :: "registry \<Rightarrow> string \<Rightarrow> string \<Rightarrow> bool" where
  "check_already_signed_up reg activity_name email =
     (case reg activity_name of
        None \<Rightarrow> False
      | Some act \<Rightarrow> email \<in> set (participants act))"

definition signup_for_activity ::
  "(string \<Rightarrow> string) \<Rightarrow> registry \<Rightarrow> string \<Rightarrow> string \<Rightarrow>
     (http_exception + (string \<times> string) list) \<times> registry" where
  "signup_for_activity lower reg activity_name payload_email =
     (let email = lower payload_email
      in if \<not> validate_student lower email then
           (Inl (HTTPException HTTP_400_BAD_REQUEST
                   ''Email must be a @mergington.edu address''), reg)
         else
           (case reg activity_name of
              None \<Rightarrow> (Inl (HTTPException HTTP_404_NOT_FOUND ''Activity not found''), reg)
            | Some act \<Rightarrow>
                if email \<in> set (participants act) then
                  (Inl (HTTPException HTTP_409_CONFLICT
                          ''Student already signed up for this activity''), reg)
                else if int (length (participants act)) \<ge> max_participants act then
                  (Inl (HTTPException HTTP_403_FORBIDDEN ''Activity is full''), reg)
                else
                  (Inr [(''message'', ''Signed up '' @ email @ '' for '' @ activity_name)],
                   reg(activity_name \<mapsto>
                         act\<lparr>participants := participants act @ [email]\<rparr>))))"

text \<open>
  The status a client sees: the code of the exception, or the code the route decorator
  gives a normal return (201 for the signup route, FastAPI's default 200 for the others).
\<close>

definition signup_status :: "(http_exception + 'a) \<times> registry \<Rightarrow> nat" where
  "signup_status r = (case fst r of Inl e \<Rightarrow> status_code e | Inr _ \<Rightarrow> HTTP_201_CREATED)"

definition get_status :: "(http_exception + 'a) \<times> registry \<Rightarrow> nat" where
  "get_status r = (case fst r of Inl e \<Rightarrow> status_code e | Inr _ \<Rightarrow> HTTP_200_OK)"

text \<open>
  The registry states the program can be in: the seed, and whatever a signup request
  leaves behind. The two read endpoints return the registry as they found it.
\<close>

inductive reachable :: "(string \<Rightarrow> string) \<Rightarrow> registry \<Rightarrow> bool"
  for lower :: "string \<Rightarrow> string" where
  seed: "reachable lower activities"
| signup: "reachable lower reg \<Longrightarrow>
    reachable lower (snd (signup_for_activity lower reg activity_name payload_email))"

text \<open>
  Every address stored in the seed is lower-case and institutional, and a signup stores
  nothing else; a registry of which this is true is called normalised.
\<close>

definition normalised :: "(string \<Rightarrow> string) \<Rightarrow> registry \<Rightarrow> bool" where
  "normalised lower reg =
     (\<forall>name act. reg name = Some act \<longrightarrow>
        (\<forall>p \<in> set (participants act). lower p = p \<and> validate_student lower p))"

text \<open>
  The invariant of the data model: no record holds more participants than its
  \<open>max_participants\<close>, and none holds an address twice.
\<close>

definition registry_inv :: "registry \<Rightarrow> bool" where
  "registry_inv reg =
     (\<forall>name act. reg name = Some act \<longrightarrow>
        int (length (participants act)) \<le> max_participants act \<and> distinct (participants act))"

text \<open>
  An example state with a full activity: the seed after ten more students have signed up
  for the Chess Club, one request after the other.
\<close>

definition late_signups :: "string list" where
  "late_signups =
     [''s01@mergington.edu'', ''s02@mergington.edu'', ''s03@mergington.edu'',
      ''s04@mergington.edu'', ''s05@mergington.edu'', ''s06@mergington.edu'',
      ''s07@mergington.edu'', ''s08@mergington.edu'', ''s09@mergington.edu'',
      ''s10@mergington.edu'']"

definition chess_club_full :: "(string \<Rightarrow> string) \<Rightarrow> registry" where
  "chess_club_full lower =
     fold (\<lambda>email reg. snd (signup_for_activity lower reg ''Chess Club'' email))
       late_signups activities"

section \<open>Basic facts about the operations\<close>

lemma ascii_lower_char_idem: "ascii_lower_char (ascii_lower_char c) = ascii_lower_char c"
  by (simp add: ascii_lower_char_def Let_def)

lemma ascii_lower_idem: "ascii_lower (ascii_lower s) = ascii_lower s"
  by (simp add: ascii_lower_def ascii_lower_char_idem)

lemma str_lower_ascii_lower: "str_lower ascii_lower"
  by (simp add: str_lower_def ascii_lower_idem)

lemma str_lower_idem: "str_lower lower \<Longrightarrow> lower (lower s) = lower s"
  by (simp add: str_lower_def)

lemma str_lower_ascii: "str_lower lower \<Longrightarrow> isascii s \<Longrightarrow> lower s = ascii_lower s"
  by (simp add: str_lower_def)

lemma validate_student_lower:
  "str_lower lower \<Longrightarrow> validate_student lower (lower email) = validate_student lower email"
  by (simp add: validate_student_def str_lower_idem)

lemma isascii_ascii_lower: "isascii s \<Longrightarrow> isascii (ascii_lower s)"
  by (induction s) (auto simp: isascii_def ascii_lower_def ascii_lower_char_def Let_def)

lemma signup_ascii:
  assumes "str_lower lower" and "isascii email"
  shows "signup_for_activity lower reg name email = signup_for_activity ascii_lower reg name email"
proof -
  have "lower email = ascii_lower email"
    using assms by (rule str_lower_ascii)
  moreover have "lower (ascii_lower email) = ascii_lower (ascii_lower email)"
    using assms by (simp add: str_lower_ascii isascii_ascii_lower)
  ultimately show ?thesis
    by (simp add: signup_for_activity_def validate_student_def)
qed

lemmas status_defs = HTTP_200_OK_def HTTP_201_CREATED_def HTTP_400_BAD_REQUEST_def
  HTTP_403_FORBIDDEN_def HTTP_404_NOT_FOUND_def HTTP_409_CONFLICT_def

text \<open>
  The five outcomes of a signup, for any lower-casing function: the conditions are those
  of the code, on the lower-cased address.
\<close>

lemma signup_invalid:
  "\<not> validate_student lower (lower email) \<Longrightarrow>
   signup_for_activity lower reg name email =
     (Inl (HTTPException 400 ''Email must be a @mergington.edu address''), reg)"
  by (simp add: signup_for_activity_def Let_def status_defs)

lemma signup_not_found:
  "validate_student lower (lower email) \<Longrightarrow> reg name = None \<Longrightarrow>
   signup_for_activity lower reg name email =
     (Inl (HTTPException 404 ''Activity not found''), reg)"
  by (simp add: signup_for_activity_def Let_def status_defs)

lemma signup_conflict:
  "validate_student lower (lower email) \<Longrightarrow> reg name = Some act \<Longrightarrow>
   lower email \<in> set (participants act) \<Longrightarrow>
   signup_for_activity lower reg name email =
     (Inl (HTTPException 409 ''Student already signed up for this activity''), reg)"
  by (simp add: signup_for_activity_def Let_def status_defs)

lemma signup_full:
  "validate_student lower (lower email) \<Longrightarrow> reg name = Some act \<Longrightarrow>
   lower email \<notin> set (participants act) \<Longrightarrow>
   max_participants act \<le> int (length (participants act)) \<Longrightarrow>
   signup_for_activity lower reg name email = (Inl (HTTPException 403 ''Activity is full''), reg)"
  by (simp add: signup_for_activity_def Let_def status_defs)

lemma signup_ok:
  "validate_student lower (lower email) \<Longrightarrow> reg name = Some act \<Longrightarrow>
   lower email \<notin> set (participants act) \<Longrightarrow>
   int (length (participants act)) < max_participants act \<Longrightarrow>
   signup_for_activity lower reg name email =
     (Inr [(''message'', ''Signed up '' @ lower email @ '' for '' @ name)],
      reg(name \<mapsto> act\<lparr>participants := participants act @ [lower email]\<rparr>))"
  by (simp add: signup_for_activity_def Let_def status_defs)

lemma signup_cases:
  obtains
    (invalid) "\<not> validate_student lower (lower email)"
      "signup_for_activity lower reg name email =
         (Inl (HTTPException 400 ''Email must be a @mergington.edu address''), reg)"
  | (not_found) "validate_student lower (lower email)" "reg name = None"
      "signup_for_activity lower reg name email =
         (Inl (HTTPException 404 ''Activity not found''), reg)"
  | (conflict) act where "validate_student lower (lower email)" "reg name = Some act"
      "lower email \<in> set (participants act)"
      "signup_for_activity lower reg name email =
         (Inl (HTTPException 409 ''Student already signed up for this activity''), reg)"
  | (full) act where "validate_student lower (lower email)" "reg name = Some act"
      "lower email \<notin> set (participants act)"
      "max_participants act \<le> int (length (participants act))"
      "signup_for_activity lower reg name email =
         (Inl (HTTPException 403 ''Activity is full''), reg)"
  | (ok) act where "validate_student lower (lower email)" "reg name = Some act"
      "lower email \<notin> set (participants act)"
      "int (length (participants act)) < max_participants act"
      "signup_for_activity lower reg name email =
         (Inr [(''message'', ''Signed up '' @ lower email @ '' for '' @ name)],
          reg(name \<mapsto> act\<lparr>participants := participants act @ [lower email]\<rparr>))"
proof (cases "validate_student lower (lower email)")
  case False
  then show ?thesis using invalid signup_invalid by blast
next
  case v: True
  show ?thesis
  proof (cases "reg name")
    case None
    then show ?thesis using v not_found signup_not_found by blast
  next
    case (Some act)
    show ?thesis
    proof (cases "lower email \<in> set (participants act)")
      case True
      then show ?thesis using v Some conflict signup_conflict by blast
    next
      case nd: False
      show ?thesis
      proof (cases "int (length (participants act)) < max_participants act")
        case True
        then show ?thesis using v Some nd ok signup_ok by blast
      next
        case False
        then have "max_participants act \<le> int (length (participants act))" by simp
        then show ?thesis using v Some nd full signup_full by blast
      qed
    qed
  qed
qed

lemma seed_addresses:
  "activities name = Some act \<Longrightarrow> p \<in> set (participants act) \<Longrightarrow>
   isascii p \<and> ascii_lower p = p \<and> endswith p ''@mergington.edu''"
  by (auto simp: activities_def isascii_def ascii_lower_def ascii_lower_char_def endswith_def
      split: if_splits)

lemma normalised_seed:
  assumes "str_lower lower"
  shows "normalised lower activities"
  unfolding normalised_def validate_student_def
  using seed_addresses str_lower_ascii [OF assms] by fastforce

lemma normalised_signup:
  assumes "str_lower lower" and "normalised lower reg"
  shows "normalised lower (snd (signup_for_activity lower reg name email))"
proof (cases rule: signup_cases [of lower email reg name])
  case (ok act)
  have "lower (lower email) = lower email \<and> validate_student lower (lower email)"
    using ok(1) assms(1) by (simp add: str_lower_idem)
  with assms(2) ok(2) show ?thesis
    unfolding ok(5) normalised_def by (auto split: if_splits)
qed (use assms in simp_all)

lemma reachable_normalised:
  assumes "str_lower lower"
  shows "reachable lower reg \<Longrightarrow> normalised lower reg"
  by (induction rule: reachable.induct) (simp_all add: assms normalised_seed normalised_signup)

lemma fold_reachable:
  "reachable lower reg \<Longrightarrow>
   reachable lower (fold (\<lambda>email reg. snd (signup_for_activity lower reg name email)) emails reg)"
  by (induction emails arbitrary: reg) (simp_all add: reachable.signup)

lemma chess_club_full_reachable: "reachable lower (chess_club_full lower)"
  unfolding chess_club_full_def by (rule fold_reachable) (rule reachable.seed)

lemma fold_signup_ascii:
  "str_lower lower \<Longrightarrow> list_all isascii emails \<Longrightarrow>
   fold (\<lambda>email reg. snd (signup_for_activity lower reg name email)) emails reg =
   fold (\<lambda>email reg. snd (signup_for_activity ascii_lower reg name email)) emails reg"
  by (induction emails arbitrary: reg) (simp_all add: signup_ascii)

lemma late_signups_ascii: "list_all isascii late_signups"
  by code_simp

lemma chess_club_full_ascii:
  "str_lower lower \<Longrightarrow> chess_club_full lower = chess_club_full ascii_lower"
  unfolding chess_club_full_def by (rule fold_signup_ascii) (simp_all add: late_signups_ascii)

lemma chess_club_full_ascii_record:
  "chess_club_full ascii_lower ''Chess Club'' =
     Some \<lparr>description = ''Learn strategies and compete in chess tournaments'',
           schedule = ''Fridays, 3:30 PM - 5:00 PM'',
           max_participants = 12,
           participants =
             [''michael@mergington.edu'', ''daniel@mergington.edu'',
              ''s01@mergington.edu'', ''s02@mergington.edu'', ''s03@mergington.edu'',
              ''s04@mergington.edu'', ''s05@mergington.edu'', ''s06@mergington.edu'',
              ''s07@mergington.edu'', ''s08@mergington.edu'', ''s09@mergington.edu'',
              ''s10@mergington.edu'']\<rparr>"
  by code_simp

lemma chess_club_full_record:
  "str_lower lower \<Longrightarrow>
   chess_club_full lower ''Chess Club'' =
     Some \<lparr>description = ''Learn strategies and compete in chess tournaments'',
           schedule = ''Fridays, 3:30 PM - 5:00 PM'',
           max_participants = 12,
           participants =
             [''michael@mergington.edu'', ''daniel@mergington.edu'',
              ''s01@mergington.edu'', ''s02@mergington.edu'', ''s03@mergington.edu'',
              ''s04@mergington.edu'', ''s05@mergington.edu'', ''s06@mergington.edu'',
              ''s07@mergington.edu'', ''s08@mergington.edu'', ''s09@mergington.edu'',
              ''s10@mergington.edu'']\<rparr>"
  by (simp add: chess_club_full_ascii chess_club_full_ascii_record)

lemma seed_chess_club:
  "activities ''Chess Club'' =
     Some \<lparr>description = ''Learn strategies and compete in chess tournaments'',
           schedule = ''Fridays, 3:30 PM - 5:00 PM'',
           max_participants = 12,
           participants = [''michael@mergington.edu'', ''daniel@mergington.edu'']\<rparr>"
  by (simp add: activities_def)

lemma seed_knitting: "activities ''Knitting Circle'' = None"
  by (simp add: activities_def)

lemma signup_status_simps:
  "signup_status (Inl (HTTPException c d), reg) = c"
  "signup_status (Inr m, reg) = 201"
  by (simp_all add: signup_status_def status_defs)

lemma registry_inv_seed: "registry_inv activities"
  unfolding registry_inv_def by (auto simp: activities_def split: if_splits)

lemma registry_inv_signup:
  assumes "registry_inv reg"
  shows "registry_inv (snd (signup_for_activity lower reg name email))"
proof (cases rule: signup_cases [of lower email reg name])
  case (ok act)
  from assms ok(2) have "distinct (participants act)"
    by (simp add: registry_inv_def)
  with ok(3) ok(4) have "int (length (participants act @ [lower email])) \<le> max_participants act
      \<and> distinct (participants act @ [lower email])"
    by simp
  with assms show ?thesis
    unfolding ok(5) registry_inv_def by (auto split: if_splits)
qed (use assms in simp_all)

lemma lower_eval: "str_lower lower \<Longrightarrow> isascii s \<Longrightarrow> ascii_lower s = t \<Longrightarrow> lower s = t"
  by (simp add: str_lower_ascii)

text \<open>Two requests on the seed, for any lower-casing function of the language.\<close>

lemma absent_activity_bad_email:
  assumes "str_lower lower"
  shows "signup_status (signup_for_activity lower activities ''Knitting Circle'' ''bob@gmail.com'')
    = 400"
proof -
  have "isascii ''bob@gmail.com''" by code_simp
  moreover have "ascii_lower ''bob@gmail.com'' = ''bob@gmail.com''" by code_simp
  ultimately have l: "lower ''bob@gmail.com'' = ''bob@gmail.com''"
    using assms by (rule lower_eval [rotated])
  have "\<not> endswith ''bob@gmail.com'' ''@mergington.edu''" by code_simp
  then have "\<not> validate_student lower (lower ''bob@gmail.com'')"
    by (simp add: validate_student_def l)
  then show ?thesis
    by (simp add: signup_invalid signup_status_simps)
qed

lemma case_variant_of_participant:
  assumes "str_lower lower"
  shows "validate_student lower ''MICHAEL@mergington.edu''"
    and "lower ''MICHAEL@mergington.edu'' = ''michael@mergington.edu''"
proof -
  have "isascii ''MICHAEL@mergington.edu''" by code_simp
  moreover have "ascii_lower ''MICHAEL@mergington.edu'' = ''michael@mergington.edu''"
    by code_simp
  ultimately show l: "lower ''MICHAEL@mergington.edu'' = ''michael@mergington.edu''"
    using assms by (rule lower_eval [rotated])
  have "endswith ''michael@mergington.edu'' ''@mergington.edu''" by code_simp
  then show "validate_student lower ''MICHAEL@mergington.edu''"
    by (simp add: validate_student_def l)
qed

lemma case_variant_conflict:
  assumes "str_lower lower" and "reg ''Chess Club'' = Some act"
    and "''michael@mergington.edu'' \<in> set (participants act)"
  shows "signup_for_activity lower reg ''Chess Club'' ''MICHAEL@mergington.edu'' =
     (Inl (HTTPException 409 ''Student already signed up for this activity''), reg)"
proof -
  note l = case_variant_of_participant(2) [OF assms(1)]
  have v: "validate_student lower (lower ''MICHAEL@mergington.edu'')"
    using case_variant_of_participant(1) [OF assms(1)]
    by (simp only: validate_student_lower [OF assms(1)])
  have m: "lower ''MICHAEL@mergington.edu'' \<in> set (participants act)"
    using assms(3) by (simp only: l)
  show ?thesis
    using v m assms(2)
      signup_conflict [of lower "''MICHAEL@mergington.edu''" reg "''Chess Club''" act]
    by blast
qed

section \<open>The claims\<close>

subsection \<open>C1: the order of the checks\<close>

text \<open>
  C1 as stated: a signup checks the activity name first, so that a request naming an
  absent activity fails with 404 whatever its address. The code checks the address first,
  before it takes the lock and looks the name up: on the seed, a request for the absent
  ``Knitting Circle'' from \<^verbatim>\<open>bob@gmail.com\<close> fails with 400, not 404.
\<close>

theorem signup_checks_email_before_name:
  "activities ''Knitting Circle'' = None \<and>
   signup_status
     (signup_for_activity ascii_lower activities ''Knitting Circle'' ''bob@gmail.com'') = 400 \<and>
   signup_status
     (signup_for_activity ascii_lower activities ''Knitting Circle'' ''bob@gmail.com'') \<noteq> 404"
  by (simp add: seed_knitting absent_activity_bad_email [OF str_lower_ascii_lower])

text \<open>
  C1, amended: the checks of a signup are made in the order InvalidInput (400, address not
  institutional), NotFound (404, name absent), Conflict (409, lower-cased address already
  in the participants), Forbidden (403, participants not fewer than \<open>max_participants\<close>),
  and the request succeeds with 201 when none applies. In particular a request naming an
  absent activity fails with 404 when its address is institutional and with 400 when it
  is not.
\<close>

theorem signup_validation_order:
  assumes "str_lower lower"
  shows "signup_status (signup_for_activity lower reg name email) =
     (if \<not> validate_student lower email then 400
      else case reg name of
        None \<Rightarrow> 404
      | Some act \<Rightarrow>
          if lower email \<in> set (participants act) then 409
          else if max_participants act \<le> int (length (participants act)) then 403
          else 201) \<and>
   (reg name = None \<longrightarrow>
      signup_status (signup_for_activity lower reg name email) =
        (if validate_student lower email then 404 else 400))"
  by (cases rule: signup_cases [of lower email reg name])
    (simp_all add: signup_status_simps validate_student_lower [OF assms])

text \<open>The amended C1 at a request for an absent activity from an institutional address.\<close>

theorem signup_validation_order_witness:
  "str_lower ascii_lower \<and>
   activities ''Knitting Circle'' = None \<and>
   signup_status
     (signup_for_activity ascii_lower activities ''Knitting Circle'' ''bob@mergington.edu'') = 404"
proof -
  have v: "validate_student ascii_lower ''bob@mergington.edu''" by code_simp
  from signup_validation_order [OF str_lower_ascii_lower, of activities "''Knitting Circle''"
      "''bob@mergington.edu''"]
  show ?thesis using v seed_knitting str_lower_ascii_lower by simp
qed

subsection \<open>C2: a successful signup appends once\<close>

text \<open>
  C2 as stated: an institutional address that is not already a participant of an existing
  activity below capacity is appended. The code compares the lower-cased address with the
  list: on the seed, \<^verbatim>\<open>MICHAEL@mergington.edu\<close> ends with the suffix and is not in the
  participants of the Chess Club (2 of 12), so \<open>check_already_signed_up\<close> is false for
  it, yet the request fails with 409 and the registry stays as it was.
\<close>

theorem signup_case_variant_of_participant:
  "endswith ''MICHAEL@mergington.edu'' ''@mergington.edu'' \<and>
   validate_student ascii_lower ''MICHAEL@mergington.edu'' \<and>
   \<not> check_already_signed_up activities ''Chess Club'' ''MICHAEL@mergington.edu'' \<and>
   map_option (length \<circ> participants) (activities ''Chess Club'') = Some 2 \<and>
   map_option max_participants (activities ''Chess Club'') = Some 12 \<and>
   signup_status
     (signup_for_activity ascii_lower activities ''Chess Club'' ''MICHAEL@mergington.edu'') = 409 \<and>
   snd (signup_for_activity ascii_lower activities ''Chess Club'' ''MICHAEL@mergington.edu'') =
     activities"
proof -
  have e: "endswith ''MICHAEL@mergington.edu'' ''@mergington.edu''" by code_simp
  note v = case_variant_of_participant(1) [OF str_lower_ascii_lower]
  have s: "signup_for_activity ascii_lower activities ''Chess Club'' ''MICHAEL@mergington.edu'' =
     (Inl (HTTPException 409 ''Student already signed up for this activity''), activities)"
    using case_variant_conflict [of ascii_lower activities "the (activities ''Chess Club'')"]
    by (simp add: str_lower_ascii_lower seed_chess_club)
  show ?thesis
    by (simp add: e v s signup_status_simps seed_chess_club check_already_signed_up_def)
qed

text \<open>
  C2, amended: for every registry, existing activity and institutional address whose
  lower-cased form is not already in the participants of that activity, when the number
  of participants is strictly below \<open>max_participants\<close>, the signup succeeds with 201
  and the only change to the registry is that the lower-cased address is appended at the
  end of that activity's participants: the list is one longer and holds the lower-cased
  address exactly once.
\<close>

theorem signup_appends_once:
  assumes "str_lower lower"
    and "reg name = Some act"
    and "validate_student lower email"
    and "lower email \<notin> set (participants act)"
    and "int (length (participants act)) < max_participants act"
  shows "signup_status (signup_for_activity lower reg name email) = 201 \<and>
    snd (signup_for_activity lower reg name email) =
      reg(name \<mapsto> act\<lparr>participants := participants act @ [lower email]\<rparr>) \<and>
    (\<exists>act'. snd (signup_for_activity lower reg name email) name = Some act' \<and>
       participants act' = participants act @ [lower email] \<and>
       length (participants act') = length (participants act) + 1 \<and>
       count_list (participants act') (lower email) = 1)"
proof -
  have "count_list (participants act) (lower email) = 0"
    using assms(4) by (simp add: count_list_0_iff)
  then show ?thesis
    using signup_ok [of lower email reg name act] assms
    by (simp add: signup_status_simps validate_student_lower)
qed

text \<open>The amended C2 on the seed, for an address written with capitals.\<close>

theorem signup_appends_once_witness:
  "str_lower ascii_lower \<and>
   signup_status
     (signup_for_activity ascii_lower activities ''Chess Club'' ''Zoe@Mergington.edu'') = 201 \<and>
   map_option participants
     (snd (signup_for_activity ascii_lower activities ''Chess Club'' ''Zoe@Mergington.edu'')
        ''Chess Club'') =
     Some [''michael@mergington.edu'', ''daniel@mergington.edu'', ''zoe@mergington.edu'']"
proof -
  have v: "validate_student ascii_lower ''Zoe@Mergington.edu''" by code_simp
  have l: "ascii_lower ''Zoe@Mergington.edu'' = ''zoe@mergington.edu''" by code_simp
  from signup_appends_once [OF str_lower_ascii_lower, of activities "''Chess Club''"
      "the (activities ''Chess Club'')" "''Zoe@Mergington.edu''"]
  show ?thesis using v by (simp add: l seed_chess_club str_lower_ascii_lower)
qed

subsection \<open>C3: the invariant of the registry\<close>

text \<open>
  C3: the invariant of the registry (in every record the participants are at most
  \<open>max_participants\<close> and pairwise different) holds in the seed, and every signup,
  successful or not, takes a registry that has it to one that has it, whatever the
  lower-casing function does.
\<close>

theorem registry_inv_seed_and_signup:
  "registry_inv activities \<and>
   (registry_inv reg \<longrightarrow> registry_inv (snd (signup_for_activity lower reg name email)))"
  by (simp add: registry_inv_seed registry_inv_signup)

text \<open>
  C3 on the seed: after a signup for the Chess Club its record is within capacity and
  without repetition.
\<close>

theorem registry_inv_seed_and_signup_witness:
  "map_option (\<lambda>act. int (length (participants act)) \<le> max_participants act \<and>
                      distinct (participants act))
     (snd (signup_for_activity ascii_lower activities ''Chess Club'' ''zoe@mergington.edu'')
        ''Chess Club'')
   = Some True"
proof -
  have v: "validate_student ascii_lower (ascii_lower ''zoe@mergington.edu'')" by code_simp
  have l: "ascii_lower ''zoe@mergington.edu'' = ''zoe@mergington.edu''" by code_simp
  have s: "snd (signup_for_activity ascii_lower activities ''Chess Club'' ''zoe@mergington.edu'')
        ''Chess Club''
      = Some \<lparr>description = ''Learn strategies and compete in chess tournaments'',
           schedule = ''Fridays, 3:30 PM - 5:00 PM'',
           max_participants = 12,
           participants = [''michael@mergington.edu'', ''daniel@mergington.edu'',
                           ''zoe@mergington.edu'']\<rparr>"
    using signup_ok [of ascii_lower "''zoe@mergington.edu''" activities "''Chess Club''"
        "the (activities ''Chess Club'')"] v
    by (simp add: l seed_chess_club)
  from registry_inv_seed_and_signup
    [of activities ascii_lower "''Chess Club''" "''zoe@mergington.edu''"]
  have "registry_inv
    (snd (signup_for_activity ascii_lower activities ''Chess Club'' ''zoe@mergington.edu''))"
    by blast
  then show ?thesis
    unfolding registry_inv_def using s by auto
qed

subsection \<open>C4: a failed signup changes nothing\<close>

text \<open>
  C4: in every state of the registry (the seed and whatever signups make of it), a signup
  with an address that is already in the participants of the named activity fails with
  409 and leaves the registry as it was. More generally, in any registry a signup fails
  exactly when its status is one of 400, 403, 404 and 409, and a failed signup leaves the
  registry as it was.
\<close>

theorem failed_signup_registry_unchanged:
  "(str_lower lower \<and> reachable lower reg \<and> reg name = Some act \<and>
    email \<in> set (participants act) \<longrightarrow>
      signup_status (signup_for_activity lower reg name email) = 409 \<and>
      snd (signup_for_activity lower reg name email) = reg) \<and>
   (isl (fst (signup_for_activity lower' reg' name' email')) \<longleftrightarrow>
      signup_status (signup_for_activity lower' reg' name' email') \<in> {400, 403, 404, 409}) \<and>
   (isl (fst (signup_for_activity lower' reg' name' email')) \<longrightarrow>
      snd (signup_for_activity lower' reg' name' email') = reg')"
proof (intro conjI impI)
  assume a: "str_lower lower \<and> reachable lower reg \<and> reg name = Some act \<and>
    email \<in> set (participants act)"
  then have "normalised lower reg" by (simp add: reachable_normalised)
  with a have "lower email = email" "validate_student lower email"
    by (auto simp: normalised_def)
  with a have "signup_for_activity lower reg name email =
     (Inl (HTTPException 409 ''Student already signed up for this activity''), reg)"
    using signup_conflict [of lower email reg name act] by simp
  then show "signup_status (signup_for_activity lower reg name email) = 409"
    and "snd (signup_for_activity lower reg name email) = reg"
    by (simp_all add: signup_status_simps)
next
  show "isl (fst (signup_for_activity lower' reg' name' email')) \<longleftrightarrow>
      signup_status (signup_for_activity lower' reg' name' email') \<in> {400, 403, 404, 409}"
    by (cases rule: signup_cases [of lower' email' reg' name'])
      (simp_all add: signup_status_simps)
next
  assume "isl (fst (signup_for_activity lower' reg' name' email'))"
  then show "snd (signup_for_activity lower' reg' name' email') = reg'"
    by (cases rule: signup_cases [of lower' email' reg' name']) simp_all
qed

text \<open>C4 on the seed: a second signup of a participant of the Chess Club.\<close>

theorem failed_signup_registry_unchanged_witness:
  "str_lower ascii_lower \<and> reachable ascii_lower activities \<and>
   map_option participants (activities ''Chess Club'') =
     Some [''michael@mergington.edu'', ''daniel@mergington.edu''] \<and>
   signup_status
     (signup_for_activity ascii_lower activities ''Chess Club'' ''daniel@mergington.edu'') = 409 \<and>
   snd (signup_for_activity ascii_lower activities ''Chess Club'' ''daniel@mergington.edu'') =
     activities"
  using failed_signup_registry_unchanged
    [of ascii_lower activities "''Chess Club''" "the (activities ''Chess Club'')"
      "''daniel@mergington.edu''"]
  by (simp add: seed_chess_club reachable.seed str_lower_ascii_lower)

subsection \<open>C5: a full activity\<close>

text \<open>
  C5 as stated: an institutional address that is not a duplicate, sent to an existing
  activity whose participants are as many as \<open>max_participants\<close>, is refused with 403.
  The duplicate check comes before the capacity check and compares the lower-cased
  address: once ten more students have signed up for the Chess Club it holds 12 of 12,
  \<^verbatim>\<open>MICHAEL@mergington.edu\<close> is not in its list, and the request fails with 409, not 403.
\<close>

theorem signup_full_case_variant_conflict:
  "reachable ascii_lower (chess_club_full ascii_lower) \<and>
   map_option max_participants (chess_club_full ascii_lower ''Chess Club'') = Some 12 \<and>
   map_option (length \<circ> participants) (chess_club_full ascii_lower ''Chess Club'') = Some 12 \<and>
   validate_student ascii_lower ''MICHAEL@mergington.edu'' \<and>
   \<not> check_already_signed_up (chess_club_full ascii_lower) ''Chess Club''
       ''MICHAEL@mergington.edu'' \<and>
   signup_status
     (signup_for_activity ascii_lower (chess_club_full ascii_lower) ''Chess Club''
        ''MICHAEL@mergington.edu'') = 409 \<and>
   signup_status
     (signup_for_activity ascii_lower (chess_club_full ascii_lower) ''Chess Club''
        ''MICHAEL@mergington.edu'') \<noteq> 403"
proof -
  note v = case_variant_of_participant(1) [OF str_lower_ascii_lower]
  note r = chess_club_full_record [OF str_lower_ascii_lower]
  have s: "signup_for_activity ascii_lower (chess_club_full ascii_lower) ''Chess Club''
      ''MICHAEL@mergington.edu'' =
     (Inl (HTTPException 409 ''Student already signed up for this activity''),
      chess_club_full ascii_lower)"
    using case_variant_conflict [of ascii_lower "chess_club_full ascii_lower"
        "the (chess_club_full ascii_lower ''Chess Club'')"]
    by (simp add: str_lower_ascii_lower r)
  show ?thesis
    by (simp add: v s r signup_status_simps chess_club_full_reachable
        check_already_signed_up_def)
qed

text \<open>
  C5, amended: for every registry, existing activity and institutional address whose
  lower-cased form is not already in the participants of that activity, when the number
  of participants equals \<open>max_participants\<close> the signup fails with 403, and the registry
  stays as it was.
\<close>

theorem signup_full_forbidden:
  assumes "str_lower lower"
    and "reg name = Some act"
    and "validate_student lower email"
    and "lower email \<notin> set (participants act)"
    and "int (length (participants act)) = max_participants act"
  shows "signup_status (signup_for_activity lower reg name email) = 403 \<and>
    snd (signup_for_activity lower reg name email) = reg"
  using signup_full [of lower email reg name act] assms
  by (simp add: signup_status_simps validate_student_lower)

text \<open>The amended C5 at the full Chess Club, for a student who is not in it.\<close>

theorem signup_full_forbidden_witness:
  "str_lower ascii_lower \<and>
   map_option max_participants (chess_club_full ascii_lower ''Chess Club'') = Some 12 \<and>
   map_option (length \<circ> participants) (chess_club_full ascii_lower ''Chess Club'') = Some 12 \<and>
   signup_status
     (signup_for_activity ascii_lower (chess_club_full ascii_lower) ''Chess Club''
        ''late@mergington.edu'') = 403 \<and>
   snd (signup_for_activity ascii_lower (chess_club_full ascii_lower) ''Chess Club''
          ''late@mergington.edu'') =
     chess_club_full ascii_lower"
proof -
  have v: "validate_student ascii_lower ''late@mergington.edu''" by code_simp
  have l: "ascii_lower ''late@mergington.edu'' = ''late@mergington.edu''" by code_simp
  note r = chess_club_full_record [OF str_lower_ascii_lower]
  from signup_full_forbidden [OF str_lower_ascii_lower, of "chess_club_full ascii_lower"
      "''Chess Club''" "the (chess_club_full ascii_lower ''Chess Club'')" "''late@mergington.edu''"]
  show ?thesis by (simp add: v l r str_lower_ascii_lower)
qed

subsection \<open>C6: addresses outside the institution\<close>

text \<open>
  C6: a signup whose address, lower-cased, does not end with \<^verbatim>\<open>@mergington.edu\<close> fails
  with 400 and leaves the registry as it was, whatever the named activity is: existing or
  not, full or not, and whoever its participants are.
\<close>

theorem signup_non_institutional_400:
  assumes "str_lower lower"
    and "\<not> endswith (lower email) ''@mergington.edu''"
  shows "signup_status (signup_for_activity lower reg name email) = 400 \<and>
    snd (signup_for_activity lower reg name email) = reg"
proof -
  from assms(2) have "\<not> validate_student lower email"
    by (simp add: validate_student_def)
  then have "\<not> validate_student lower (lower email)"
    by (simp add: validate_student_lower [OF assms(1)])
  then show ?thesis
    by (simp add: signup_invalid signup_status_simps)
qed

text \<open>C6 on the seed, for an existing activity with free places.\<close>

theorem signup_non_institutional_400_witness:
  "str_lower ascii_lower \<and>
   \<not> endswith (ascii_lower ''Bob@Yahoo.com'') ''@mergington.edu'' \<and>
   map_option (length \<circ> participants) (activities ''Chess Club'') = Some 2 \<and>
   signup_status
     (signup_for_activity ascii_lower activities ''Chess Club'' ''Bob@Yahoo.com'') = 400 \<and>
   snd (signup_for_activity ascii_lower activities ''Chess Club'' ''Bob@Yahoo.com'') = activities"
proof -
  have n: "\<not> endswith (ascii_lower ''Bob@Yahoo.com'') ''@mergington.edu''" by code_simp
  from signup_non_institutional_400 [OF str_lower_ascii_lower n, of activities "''Chess Club''"]
  show ?thesis by (simp add: n seed_chess_club str_lower_ascii_lower)
qed

subsection \<open>C7: what a signup may change\<close>

text \<open>
  C7: a signup for an activity name changes nothing but the participants of that one
  activity. Every other name keeps its record (or stays absent), an absent name stays
  absent, and the record under the name keeps its description, schedule and
  \<open>max_participants\<close>, whatever the lower-casing function does.
\<close>

theorem signup_frame:
  "(\<forall>other. other \<noteq> name \<longrightarrow>
      snd (signup_for_activity lower reg name email) other = reg other) \<and>
   (reg name = None \<longrightarrow> snd (signup_for_activity lower reg name email) name = None) \<and>
   (\<forall>act. reg name = Some act \<longrightarrow>
      (\<exists>act'. snd (signup_for_activity lower reg name email) name = Some act' \<and>
         description act' = description act \<and>
         schedule act' = schedule act \<and>
         max_participants act' = max_participants act))"
  by (cases rule: signup_cases [of lower email reg name]) simp_all

text \<open>
  C7 on the seed: a signup for the Chess Club leaves the Programming Class as it was, and
  the Chess Club with its capacity.
\<close>

theorem signup_frame_witness:
  "snd (signup_for_activity ascii_lower activities ''Chess Club'' ''zoe@mergington.edu'')
     ''Programming Class''
     = activities ''Programming Class'' \<and>
   map_option max_participants
     (snd (signup_for_activity ascii_lower activities ''Chess Club'' ''zoe@mergington.edu'')
        ''Chess Club'')
     = Some 12"
proof -
  note f = signup_frame [of "''Chess Club''" ascii_lower activities "''zoe@mergington.edu''"]
  from f have "snd (signup_for_activity ascii_lower activities ''Chess Club''
      ''zoe@mergington.edu'') ''Programming Class'' = activities ''Programming Class''"
    by simp
  moreover from f seed_chess_club
  have "map_option max_participants
     (snd (signup_for_activity ascii_lower activities ''Chess Club'' ''zoe@mergington.edu'')
        ''Chess Club'')
     = Some 12"
    by auto
  ultimately show ?thesis by simp
qed

subsection \<open>C8: reading one activity\<close>

text \<open>
  C8: \<^verbatim>\<open>GET /activities/{name}\<close> returns the record stored under the name when there is
  one (status 200), fails with 404 when there is none, and in both cases leaves the
  registry as it was.
\<close>

theorem get_activity_record_or_404:
  "(\<forall>act. reg name = Some act \<longrightarrow>
      fst (get_activity reg name) = Inr act \<and> get_status (get_activity reg name) = 200) \<and>
   (reg name = None \<longrightarrow>
      fst (get_activity reg name) = Inl (HTTPException 404 ''Activity not found'') \<and>
      get_status (get_activity reg name) = 404) \<and>
   snd (get_activity reg name) = reg"
  by (simp add: get_activity_def get_status_def status_defs split: option.splits)

text \<open>C8 on the seed, for a present and for an absent name.\<close>

theorem get_activity_record_or_404_witness:
  "map_option participants (activities ''Chess Club'') =
     Some [''michael@mergington.edu'', ''daniel@mergington.edu''] \<and>
   fst (get_activity activities ''Chess Club'') = Inr (the (activities ''Chess Club'')) \<and>
   activities ''Knitting Circle'' = None \<and>
   get_status (get_activity activities ''Knitting Circle'') = 404 \<and>
   snd (get_activity activities ''Knitting Circle'') = activities"
  using get_activity_record_or_404 [of activities "''Chess Club''"]
    get_activity_record_or_404 [of activities "''Knitting Circle''"]
  by (simp add: seed_chess_club seed_knitting)

subsection \<open>C9: the example of the Chess Club\<close>

text \<open>
  C9: in the seed the Chess Club has 2 participants and room for 12; the signup of
  \<^verbatim>\<open>new@mergington.edu\<close> succeeds with 201 and leaves it with 3 participants, the new
  address among them.
\<close>

theorem chess_club_example:
  assumes "str_lower lower"
  shows "map_option (length \<circ> participants) (activities ''Chess Club'') = Some 2 \<and>
   map_option max_participants (activities ''Chess Club'') = Some 12 \<and>
   signup_status (signup_for_activity lower activities ''Chess Club'' ''new@mergington.edu'')
     = 201 \<and>
   map_option (length \<circ> participants)
     (snd (signup_for_activity lower activities ''Chess Club'' ''new@mergington.edu'')
        ''Chess Club'')
     = Some 3 \<and>
   map_option participants
     (snd (signup_for_activity lower activities ''Chess Club'' ''new@mergington.edu'')
        ''Chess Club'')
     = Some [''michael@mergington.edu'', ''daniel@mergington.edu'', ''new@mergington.edu'']"
proof -
  have "isascii ''new@mergington.edu''" by code_simp
  moreover have "ascii_lower ''new@mergington.edu'' = ''new@mergington.edu''" by code_simp
  ultimately have l: "lower ''new@mergington.edu'' = ''new@mergington.edu''"
    using assms by (rule lower_eval [rotated])
  have "endswith ''new@mergington.edu'' ''@mergington.edu''" by code_simp
  then have v: "validate_student lower (lower ''new@mergington.edu'')"
    by (simp add: validate_student_def l)
  have "signup_for_activity lower activities ''Chess Club'' ''new@mergington.edu'' =
     (Inr [(''message'', ''Signed up '' @ ''new@mergington.edu'' @ '' for '' @ ''Chess Club'')],
      activities(''Chess Club'' \<mapsto>
        (the (activities ''Chess Club''))
          \<lparr>participants := participants (the (activities ''Chess Club''))
             @ [''new@mergington.edu'']\<rparr>))"
    using signup_ok [of lower "''new@mergington.edu''" activities "''Chess Club''"
        "the (activities ''Chess Club'')"] v
    by (simp add: l seed_chess_club)
  then show ?thesis
    by (simp add: seed_chess_club signup_status_simps)
qed

text \<open>C9 with the lower-casing of ASCII.\<close>

theorem chess_club_example_witness:
  "str_lower ascii_lower \<and>
   signup_status
     (signup_for_activity ascii_lower activities ''Chess Club'' ''new@mergington.edu'') = 201 \<and>
   map_option participants
     (snd (signup_for_activity ascii_lower activities ''Chess Club'' ''new@mergington.edu'')
        ''Chess Club'')
     = Some [''michael@mergington.edu'', ''daniel@mergington.edu'', ''new@mergington.edu'']"
  using chess_club_example [OF str_lower_ascii_lower] str_lower_ascii_lower by simp

subsection \<open>C10: the duplicate check ignores letter case\<close>



end
